theory Spec2Isabelle
  imports Main "HOL-Library.AList" "HOL-Library.Sublist"
begin

section \<open>JavaScript values used by the program\<close>

text \<open>
  Strings are lists of code units; every \<^typ>\<open>char\<close> stands for the code point of the
  same number (0 to 255). Numbers that the program computes with (prices, quantities,
  totals, the millisecond clock) are integers; the model covers the integer-valued
  numbers that JavaScript represents exactly.
\<close>

definition toLowerCaseChar :: "char \<Rightarrow> char" where
  "toLowerCaseChar c =
     (let n = (of_char c :: nat)
      in if (65 \<le> n \<and> n \<le> 90) \<or> (192 \<le> n \<and> n \<le> 222 \<and> n \<noteq> 215)
         then char_of (n + 32) else c)"

definition toLowerCase :: "string \<Rightarrow> string" where
  "toLowerCase s = map toLowerCaseChar s"

text \<open>The code points below 256 that the regular expression class \<open>\s\<close> matches.\<close>

definition isWhitespace :: "char \<Rightarrow> bool" where
  "isWhitespace c = ((of_char c :: nat) \<in> {9, 10, 11, 12, 13, 32, 160})"

text \<open>\<open>s.replace(/\s+/g, '')\<close>: every run of whitespace is deleted.\<close>

definition removeWhitespace :: "string \<Rightarrow> string" where
  "removeWhitespace s = filter (\<lambda>c. \<not> isWhitespace c) s"

text \<open>\<open>s.includes(sub)\<close> (\<open>includes\<close> is a keyword of Isabelle): \<open>sub\<close> occurs in \<open>s\<close> as a contiguous run.\<close>

primrec includesStr :: "string \<Rightarrow> string \<Rightarrow> bool" where
  "includesStr [] sub = (sub = [])"
| "includesStr (c # cs) sub = (take (length sub) (c # cs) = sub \<or> includesStr cs sub)"

text \<open>The decimal digits of a number, as a template literal \<open>`${n}`\<close> prints them.\<close>

definition digitChar :: "nat \<Rightarrow> char" where
  "digitChar d = char_of (48 + d)"

fun natToString :: "nat \<Rightarrow> string" where
  "natToString n =
     (if n < 10 then [digitChar n] else natToString (n div 10) @ [digitChar (n mod 10)])"

declare natToString.simps [simp del]

definition intToString :: "int \<Rightarrow> string" where
  "intToString i = (if i < 0 then CHR ''-'' # natToString (nat (- i)) else natToString (nat i))"

text \<open>
  Property lookup \<open>obj[key]\<close> on an object literal. The object's own properties are an
  association list; a key that is not an own property is looked up in
  \<open>Object.prototype\<close>, whose properties every object literal inherits. Every inherited
  value is truthy (a function, or the prototype object itself for \<open>__proto__\<close>), and
  none of them is an array or has a property named \<open>categories\<close>.
\<close>

datatype 'a property = Own 'a | Inherited | Undefined

definition objectPrototypeKeys :: "string list" where
  "objectPrototypeKeys =
     [''constructor'', ''__defineGetter__'', ''__defineSetter__'', ''hasOwnProperty'',
      ''__lookupGetter__'', ''__lookupSetter__'', ''isPrototypeOf'',
      ''propertyIsEnumerable'', ''toString'', ''valueOf'', ''__proto__'',
      ''toLocaleString'']"

definition getProperty :: "(string \<times> 'a) list \<Rightarrow> string \<Rightarrow> 'a property" where
  "getProperty obj key =
     (case map_of obj key of
        Some v \<Rightarrow> Own v
      | None \<Rightarrow> if key \<in> set objectPrototypeKeys then Inherited else Undefined)"

section \<open>The mock service: data\<close>

text \<open>
  The records follow the object literals of \<open>mockZomatoService.js\<close>. Field names carry a
  prefix because several objects share the names \<open>id\<close>, \<open>name\<close>, \<open>items\<close> and
  \<open>total\<close>. The fields \<open>rating\<close> (a fraction) and \<open>image\<close> (an emoji) are written
  by no operation and read by none; they are left out.
\<close>

record restaurant =
  r_id :: string
  r_name :: string
  r_cuisine :: string
  r_priceRange :: string
  r_location :: string
  r_deliveryTime :: string

record menu_item =
  mi_id :: string
  mi_name :: string
  mi_description :: string
  mi_price :: int
  mi_veg :: bool

record category =
  cat_name :: string
  cat_items :: "menu_item list"

record menu =
  m_restaurantId :: string
  m_restaurantName :: string
  m_categories :: "category list"

record cart_item =
  ci_itemId :: string
  ci_name :: string
  ci_price :: int
  ci_quantity :: int
  ci_customizations :: "string option"
  ci_subtotal :: int

record cart =
  c_restaurantId :: string
  c_items :: "cart_item list"
  c_total :: int

record order =
  o_orderId :: string
  o_items :: "cart_item list"
  o_total :: int
  o_deliveryAddress :: string
  o_paymentMethod :: string
  o_status :: string
  o_estimatedDelivery :: string
  o_placedAt :: string

text \<open>The two \<open>Map\<close>s of the service object: carts by session id, orders by order id.\<close>

record service =
  carts :: "string \<rightharpoonup> cart"
  orders :: "string \<rightharpoonup> order"

definition newService :: service where
  "newService = \<lparr>carts = Map.empty, orders = Map.empty\<rparr>"

text \<open>
  A reply \<open>{success: false, error: msg}\<close> is one of the first four errors;
  \<open>TypeError\<close> is the exception the JavaScript runtime throws.
\<close>

datatype error = RestaurantNotFound | ItemNotFound | CartIsEmpty | OrderNotFound | TypeError

fun errorMessage :: "error \<Rightarrow> string" where
  "errorMessage RestaurantNotFound = ''Restaurant not found''"
| "errorMessage ItemNotFound = ''Item not found''"
| "errorMessage CartIsEmpty = ''Cart is empty''"
| "errorMessage OrderNotFound = ''Order not found''"
| "errorMessage TypeError = ''TypeError''"

definition generateMockRestaurants :: "(string \<times> restaurant list) list" where
  "generateMockRestaurants =
    [(''vadodara'',
       [\<lparr>r_id = ''rest_001'', r_name = ''Sev Usal House'', r_cuisine = ''Gujarati'',
          r_priceRange = ''budget'', r_location = ''Alkapuri, Vadodara'',
          r_deliveryTime = ''25-30 mins''\<rparr>,
        \<lparr>r_id = ''rest_002'', r_name = ''Mandap Restaurant'',
          r_cuisine = ''North Indian, Gujarati'', r_priceRange = ''mid-range'',
          r_location = ''RC Dutt Road, Vadodara'', r_deliveryTime = ''30-35 mins''\<rparr>,
        \<lparr>r_id = ''rest_003'', r_name = ''Jassi De Parathe'',
          r_cuisine = ''North Indian, Punjabi'', r_priceRange = ''budget'',
          r_location = ''Sayajigunj, Vadodara'', r_deliveryTime = ''20-25 mins''\<rparr>,
        \<lparr>r_id = ''rest_004'', r_name = ''The Barbeque Nation'',
          r_cuisine = ''BBQ, North Indian'', r_priceRange = ''premium'',
          r_location = ''Alkapuri, Vadodara'', r_deliveryTime = ''35-40 mins''\<rparr>]),
     (''mumbai'',
       [\<lparr>r_id = ''rest_101'', r_name = ''Pizza Express'', r_cuisine = ''Italian, Pizza'',
          r_priceRange = ''mid-range'', r_location = ''Bandra, Mumbai'',
          r_deliveryTime = ''30-35 mins''\<rparr>,
        \<lparr>r_id = ''rest_102'', r_name = ''Pasta Lovers'', r_cuisine = ''Italian'',
          r_priceRange = ''mid-range'', r_location = ''Andheri, Mumbai'',
          r_deliveryTime = ''25-30 mins''\<rparr>]),
     (''delhi'',
       [\<lparr>r_id = ''rest_201'', r_name = ''Biryani Blues'', r_cuisine = ''Biryani, Indian'',
          r_priceRange = ''budget'', r_location = ''Connaught Place, Delhi'',
          r_deliveryTime = ''30-35 mins''\<rparr>])]"

definition getMenus :: "(string \<times> menu) list" where
  "getMenus =
    [(''rest_001'',
       \<lparr>m_restaurantId = ''rest_001'', m_restaurantName = ''Sev Usal House'',
        m_categories =
          [\<lparr>cat_name = ''Breakfast Specials'',
            cat_items =
              [\<lparr>mi_id = ''item_001'', mi_name = ''Sev Usal'',
                 mi_description =
                   ''Traditional Gujarati breakfast with crispy sev and spicy usal'',
                 mi_price = 80, mi_veg = True\<rparr>,
               \<lparr>mi_id = ''item_002'', mi_name = ''Dabeli'',
                 mi_description =
                   ''Famous Gujarati street food with peanuts and pomegranate'',
                 mi_price = 40, mi_veg = True\<rparr>,
               \<lparr>mi_id = ''item_003'', mi_name = ''Khaman Dhokla'',
                 mi_description = ''Steamed savory cake made from gram flour'',
                 mi_price = 60, mi_veg = True\<rparr>]\<rparr>,
           \<lparr>cat_name = ''Main Course'',
            cat_items =
              [\<lparr>mi_id = ''item_004'', mi_name = ''Gujarati Thali'',
                 mi_description =
                   ''Complete meal with dal, kadhi, vegetables, roti, rice'',
                 mi_price = 200, mi_veg = True\<rparr>,
               \<lparr>mi_id = ''item_005'', mi_name = ''Undhiyu'',
                 mi_description = ''Mixed vegetable curry - Gujarati specialty'',
                 mi_price = 150, mi_veg = True\<rparr>]\<rparr>]\<rparr>),
     (''rest_002'',
       \<lparr>m_restaurantId = ''rest_002'', m_restaurantName = ''Mandap Restaurant'',
        m_categories =
          [\<lparr>cat_name = ''North Indian'',
            cat_items =
              [\<lparr>mi_id = ''item_101'', mi_name = ''Butter Chicken'',
                 mi_description = ''Creamy tomato-based chicken curry'',
                 mi_price = 280, mi_veg = False\<rparr>,
               \<lparr>mi_id = ''item_102'', mi_name = ''Paneer Butter Masala'',
                 mi_description = ''Cottage cheese in rich creamy gravy'',
                 mi_price = 220, mi_veg = True\<rparr>]\<rparr>]\<rparr>),
     (''rest_003'',
       \<lparr>m_restaurantId = ''rest_003'', m_restaurantName = ''Jassi De Parathe'',
        m_categories =
          [\<lparr>cat_name = ''Parathas'',
            cat_items =
              [\<lparr>mi_id = ''item_201'', mi_name = ''Aloo Paratha'',
                 mi_description = ''Stuffed with spiced potato filling'',
                 mi_price = 60, mi_veg = True\<rparr>,
               \<lparr>mi_id = ''item_202'', mi_name = ''Paneer Paratha'',
                 mi_description = ''Stuffed with cottage cheese'',
                 mi_price = 80, mi_veg = True\<rparr>,
               \<lparr>mi_id = ''item_203'', mi_name = ''Mix Veg Paratha'',
                 mi_description = ''Stuffed with mixed vegetables'',
                 mi_price = 70, mi_veg = True\<rparr>]\<rparr>]\<rparr>),
     (''rest_101'',
       \<lparr>m_restaurantId = ''rest_101'', m_restaurantName = ''Pizza Express'',
        m_categories =
          [\<lparr>cat_name = ''Pizzas'',
            cat_items =
              [\<lparr>mi_id = ''item_301'', mi_name = ''Margherita Pizza'',
                 mi_description = ''Classic pizza with mozzarella and basil'',
                 mi_price = 299, mi_veg = True\<rparr>,
               \<lparr>mi_id = ''item_302'', mi_name = ''Pepperoni Pizza'',
                 mi_description = ''Loaded with pepperoni and cheese'',
                 mi_price = 399, mi_veg = False\<rparr>]\<rparr>]\<rparr>)]"

section \<open>The mock service: operations\<close>

text \<open>
  Every operation takes the service state and returns the state it leaves with its
  reply. A write made before a failing reply stays in the returned state, as the
  mutation of the \<open>Map\<close> stays in the program.
\<close>

subsection \<open>searchRestaurants\<close>

text \<open>
  The value bound to \<open>restaurants\<close> in the reply is an array of restaurants or, when
  the normalised location names an inherited property, that property's value (tagged
  here with the key). \<open>count\<close> is \<open>restaurants.length\<close> and is not stored apart.
\<close>

datatype restaurants_value = RestaurantList "restaurant list" | InheritedValue string

record search_reply =
  sr_location :: string
  sr_restaurants :: restaurants_value

text \<open>
  \<open>restaurants.filter(p)\<close>: a value that is no array has no method \<open>filter\<close>. An
  optional argument that is \<open>null\<close>, \<open>undefined\<close> or the empty string is falsy, and
  \<open>if (cuisine)\<close> and \<open>if (priceRange)\<close> skip the filter for it.
\<close>

fun filterValue :: "(restaurant \<Rightarrow> bool) \<Rightarrow> restaurants_value \<Rightarrow> error + restaurants_value" where
  "filterValue p (RestaurantList rs) = Inr (RestaurantList (filter p rs))"
| "filterValue p (InheritedValue k) = Inl TypeError"

definition lookupRestaurants :: "string \<Rightarrow> restaurants_value" where
  "lookupRestaurants locationKey =
     (case getProperty generateMockRestaurants locationKey of
        Own rs \<Rightarrow> RestaurantList rs
      | Inherited \<Rightarrow> InheritedValue locationKey
      | Undefined \<Rightarrow>
          (case getProperty generateMockRestaurants ''vadodara'' of
             Own rs \<Rightarrow> RestaurantList rs
           | _ \<Rightarrow> InheritedValue ''vadodara''))"

definition searchRestaurants ::
  "string \<Rightarrow> string option \<Rightarrow> string option \<Rightarrow> error + search_reply" where
  "searchRestaurants location cuisine priceRange =
     (let locationKey = removeWhitespace (toLowerCase location);
          restaurants = Inr (lookupRestaurants locationKey);
          restaurants1 =
            (case cuisine of
               None \<Rightarrow> restaurants
             | Some c \<Rightarrow>
                 if c = [] then restaurants
                 else (let cuisineLower = toLowerCase c
                       in case restaurants of
                            Inl e \<Rightarrow> Inl e
                          | Inr v \<Rightarrow>
                              filterValue
                                (\<lambda>r. includesStr (toLowerCase (r_cuisine r)) cuisineLower) v));
          restaurants2 =
            (case priceRange of
               None \<Rightarrow> restaurants1
             | Some p \<Rightarrow>
                 if p = [] then restaurants1
                 else (case restaurants1 of
                         Inl e \<Rightarrow> Inl e
                       | Inr v \<Rightarrow> filterValue (\<lambda>r. r_priceRange r = p) v))
      in case restaurants2 of
           Inl e \<Rightarrow> Inl e
         | Inr v \<Rightarrow> Inr \<lparr>sr_location = location, sr_restaurants = v\<rparr>)"

subsection \<open>getMenu\<close>

definition getMenu :: "string \<Rightarrow> error + menu property" where
  "getMenu restaurantId =
     (case getProperty getMenus restaurantId of
        Undefined \<Rightarrow> Inl RestaurantNotFound
      | p \<Rightarrow> Inr p)"

subsection \<open>addToCart\<close>

text \<open>
  The loop over \<open>menu.categories\<close> with \<open>category.items.find\<close> and \<open>break\<close>: the first
  item with the given id, in category order.
\<close>

fun findItem :: "category list \<Rightarrow> string \<Rightarrow> menu_item option" where
  "findItem [] itemId = None"
| "findItem (category # rest) itemId =
     (case find (\<lambda>i. mi_id i = itemId) (cat_items category) of
        Some item \<Rightarrow> Some item
      | None \<Rightarrow> findItem rest itemId)"

record add_reply =
  ar_message :: string
  ar_cart :: cart

definition emptyCartFor :: "string \<Rightarrow> cart" where
  "emptyCartFor restaurantId = \<lparr>c_restaurantId = restaurantId, c_items = [], c_total = 0\<rparr>"

definition ensureCart :: "service \<Rightarrow> string \<Rightarrow> string \<Rightarrow> service" where
  "ensureCart s sessionId restaurantId =
     (if carts s sessionId = None
      then s\<lparr>carts := (carts s)(sessionId \<mapsto> emptyCartFor restaurantId)\<rparr>
      else s)"

definition addToCart ::
  "service \<Rightarrow> string \<Rightarrow> string \<Rightarrow> string \<Rightarrow> int \<Rightarrow> string option
     \<Rightarrow> service \<times> (error + add_reply)" where
  "addToCart s sessionId restaurantId itemId quantity customizations =
     (let s1 = ensureCart s sessionId restaurantId;
          cart = (case carts s1 sessionId of
                    Some c \<Rightarrow> c
                  | None \<Rightarrow> emptyCartFor restaurantId)
      in case getProperty getMenus restaurantId of
           Undefined \<Rightarrow> (s1, Inl RestaurantNotFound)
         | Inherited \<Rightarrow> (s1, Inl TypeError)
         | Own menu \<Rightarrow>
             (case findItem (m_categories menu) itemId of
                None \<Rightarrow> (s1, Inl ItemNotFound)
              | Some foundItem \<Rightarrow>
                  (let cartItem =
                         \<lparr>ci_itemId = itemId, ci_name = mi_name foundItem,
                          ci_price = mi_price foundItem, ci_quantity = quantity,
                          ci_customizations = customizations,
                          ci_subtotal = mi_price foundItem * quantity\<rparr>;
                       items = c_items cart @ [cartItem];
                       cart' = cart\<lparr>c_items := items,
                                    c_total := foldl (\<lambda>sum item. sum + ci_subtotal item) 0 items\<rparr>
                   in (s1\<lparr>carts := (carts s1)(sessionId \<mapsto> cart')\<rparr>,
                       Inr \<lparr>ar_message =
                              ''Added '' @ intToString quantity @ ''x '' @ mi_name foundItem
                                @ '' to cart'',
                            ar_cart = cart'\<rparr>))))"

subsection \<open>viewCart\<close>

text \<open>
  The cart of a reply: the stored cart, or the literal \<open>{items: [], total: 0}\<close>, which
  has no \<open>restaurantId\<close>.
\<close>

record cart_view =
  cv_restaurantId :: "string option"
  cv_items :: "cart_item list"
  cv_total :: int

record view_reply =
  vr_message :: "string option"
  vr_cart :: cart_view

definition emptyCartView :: cart_view where
  "emptyCartView = \<lparr>cv_restaurantId = None, cv_items = [], cv_total = 0\<rparr>"

definition viewCart :: "service \<Rightarrow> string \<Rightarrow> view_reply" where
  "viewCart s sessionId =
     (case carts s sessionId of
        None \<Rightarrow> \<lparr>vr_message = Some ''Your cart is empty'', vr_cart = emptyCartView\<rparr>
      | Some cart \<Rightarrow>
          if length (c_items cart) = 0
          then \<lparr>vr_message = Some ''Your cart is empty'', vr_cart = emptyCartView\<rparr>
          else \<lparr>vr_message = None,
                vr_cart = \<lparr>cv_restaurantId = Some (c_restaurantId cart),
                           cv_items = c_items cart, cv_total = c_total cart\<rparr>\<rparr>)"

subsection \<open>placeOrder\<close>

text \<open>
  The two readings of the clock are arguments: \<open>now\<close> is \<open>Date.now()\<close>, the milliseconds
  since the epoch, and \<open>placedAt\<close> is \<open>new Date().toISOString()\<close>.
\<close>

definition placeOrder ::
  "service \<Rightarrow> nat \<Rightarrow> string \<Rightarrow> string \<Rightarrow> string \<Rightarrow> string \<Rightarrow> service \<times> (error + order)" where
  "placeOrder s now placedAt sessionId deliveryAddress paymentMethod =
     (case carts s sessionId of
        None \<Rightarrow> (s, Inl CartIsEmpty)
      | Some cart \<Rightarrow>
          if length (c_items cart) = 0 then (s, Inl CartIsEmpty)
          else
            (let orderId = ''ORD'' @ natToString now;
                 order = \<lparr>o_orderId = orderId, o_items = c_items cart, o_total = c_total cart,
                          o_deliveryAddress = deliveryAddress, o_paymentMethod = paymentMethod,
                          o_status = ''confirmed'', o_estimatedDelivery = ''30-35 mins'',
                          o_placedAt = placedAt\<rparr>
             in (s\<lparr>orders := (orders s)(orderId \<mapsto> order),
                   carts := (carts s)(sessionId := None)\<rparr>,
                 Inr order)))"

subsection \<open>trackOrder\<close>

definition statuses :: "string list" where
  "statuses = [''confirmed'', ''preparing'', ''out_for_delivery'', ''delivered'']"

text \<open>\<open>xs.indexOf(x)\<close>: the first index of \<open>x\<close>, or \<open>-1\<close>.\<close>

fun indexOf :: "'a list \<Rightarrow> 'a \<Rightarrow> int" where
  "indexOf [] x = - 1"
| "indexOf (y # ys) x =
     (if y = x then 0 else (let i = indexOf ys x in if i < 0 then - 1 else i + 1))"

record track_view =
  tv_orderId :: string
  tv_status :: string
  tv_estimatedDelivery :: string
  tv_deliveryAddress :: string
  tv_total :: int

definition advance :: "order \<Rightarrow> order" where
  "advance order =
     (let currentStatusIndex = indexOf statuses (o_status order)
      in if currentStatusIndex < int (length statuses) - 1
         then order\<lparr>o_status := statuses ! nat (currentStatusIndex + 1)\<rparr>
         else order)"

definition trackOrder :: "service \<Rightarrow> string \<Rightarrow> service \<times> (error + track_view)" where
  "trackOrder s orderId =
     (case orders s orderId of
        None \<Rightarrow> (s, Inl OrderNotFound)
      | Some order0 \<Rightarrow>
          (let order = advance order0
           in (s\<lparr>orders := (orders s)(orderId \<mapsto> order)\<rparr>,
               Inr \<lparr>tv_orderId = o_orderId order, tv_status = o_status order,
                    tv_estimatedDelivery = o_estimatedDelivery order,
                    tv_deliveryAddress = o_deliveryAddress order,
                    tv_total = o_total order\<rparr>)))"

section \<open>The tool registry and the chat endpoint\<close>

text \<open>
  \<open>gemini-food-ordering.js\<close> and \<open>server.js\<close> are two servers with the same \<open>/chat\<close>
  endpoint. Both talk to the language model through a chat object of the model's SDK,
  which is not part of the program: the model is an argument, a pair of functions
  \<open>startChat\<close> and \<open>sendMessage\<close> over a state \<open>'c\<close> of the chat object that is left open.
  A call of the model returns a response or throws. The state \<open>'b\<close> is the state of
  whatever the tools write to (the mock service, the remote service).
\<close>

subsection \<open>Errors that are thrown\<close>

text \<open>Every constructor carries the \<open>message\<close> of the \<open>Error\<close> object.\<close>

datatype chat_error =
    ToolNotFound string
  | UnknownFunction string
  | HandlerError string
  | ModelError string

fun errorText :: "chat_error \<Rightarrow> string" where
  "errorText (ToolNotFound name) = ''Tool not found: '' @ name"
| "errorText (UnknownFunction name) = ''Unknown function: '' @ name"
| "errorText (HandlerError m) = m"
| "errorText (ModelError m) = m"

subsection \<open>ToolRegistry\<close>

text \<open>
  \<open>this.tools\<close> is a \<open>Map\<close>: it keeps its keys in insertion order, and \<open>set\<close> on a key
  that is present replaces the value where it stands. A handler takes the arguments of
  the call, the session id of the context and the state the tools write to.
\<close>

record ('i, 'h) tool_definition =
  td_name :: string
  td_description :: string
  td_inputSchema :: 'i
  td_handler :: 'h

type_synonym ('a, 'b, 'r) handler = "'a \<Rightarrow> string \<Rightarrow> 'b \<Rightarrow> 'b \<times> (chat_error + 'r)"

type_synonym ('i, 'a, 'b, 'r) tool_registry =
  "(string \<times> ('i, ('a, 'b, 'r) handler) tool_definition) list"

definition registerTool ::
  "('i, 'a, 'b, 'r) tool_registry \<Rightarrow> ('i, ('a, 'b, 'r) handler) tool_definition
     \<Rightarrow> ('i, 'a, 'b, 'r) tool_registry" where
  "registerTool tools defn = AList.update (td_name defn) defn tools"

definition getGeminiTools :: "('i, 'a, 'b, 'r) tool_registry \<Rightarrow> (string \<times> string \<times> 'i) list" where
  "getGeminiTools tools =
     map (\<lambda>(name, tool). (td_name tool, td_description tool, td_inputSchema tool)) tools"

definition executeTool ::
  "('i, 'a, 'b, 'r) tool_registry \<Rightarrow> string \<Rightarrow> 'a \<Rightarrow> string \<Rightarrow> 'b \<Rightarrow> 'b \<times> (chat_error + 'r)" where
  "executeTool tools name args sessionId backend =
     (case map_of tools name of
        None \<Rightarrow> (backend, Inl (ToolNotFound name))
      | Some tool \<Rightarrow> td_handler tool args sessionId backend)"

subsection \<open>handleFunctionCall (server.js)\<close>




subsection \<open>The model\<close>

record 'a function_call =
  fc_name :: string
  fc_args :: 'a

text \<open>
  A response of the model: \<open>functionCalls\<close> is absent or an array, and \<open>text()\<close> returns
  a string or throws.
\<close>

record 'a model_response =
  resp_functionCalls :: "'a function_call list option"
  resp_text :: "chat_error + string"

text \<open>What is sent to the model: the user's message, or the result of a tool.\<close>

datatype 'p part = UserText string | FunctionResponse string 'p

datatype role = User | Model

record message =
  msg_role :: role
  msg_text :: string

record ('a, 'p, 'c) model =
  startChat :: "message list \<Rightarrow> 'c"
  sendMessage :: "'c \<Rightarrow> 'p part \<Rightarrow> chat_error + ('c \<times> 'a model_response)"

subsection \<open>The function-call loop\<close>

definition maxCalls :: nat where
  "maxCalls = 10"

text \<open>
  \<open>while (response.functionCalls?.length > 0 && callCount < maxCalls)\<close>, the same loop
  in both servers (\<open>functionCallCount < maxFunctionCalls\<close> in \<open>server.js\<close>): the first
  requested call is executed by \<open>exec\<close>, its result is sent back to the model, and the
  counter goes up by one. An exception thrown by \<open>exec\<close> or by the model leaves the loop;
  what \<open>exec\<close> wrote before stays written. The loop returns the chat object, the last
  response and the counter.
\<close>

function functionCallLoop ::
  "(string \<Rightarrow> 'a \<Rightarrow> 'b \<Rightarrow> 'b \<times> (chat_error + 'p))
     \<Rightarrow> ('c \<Rightarrow> 'p part \<Rightarrow> chat_error + ('c \<times> 'a model_response))
     \<Rightarrow> 'c \<Rightarrow> 'b \<Rightarrow> 'a model_response \<Rightarrow> nat
     \<Rightarrow> 'b \<times> (chat_error + ('c \<times> 'a model_response \<times> nat))" where
  "functionCallLoop exec send chat backend response callCount =
     (case resp_functionCalls response of
        Some (functionCall # others) \<Rightarrow>
          if callCount < maxCalls
          then (case exec (fc_name functionCall) (fc_args functionCall) backend of
                  (backend', Inl e) \<Rightarrow> (backend', Inl e)
                | (backend', Inr toolResult) \<Rightarrow>
                    (case send chat (FunctionResponse (fc_name functionCall) toolResult) of
                       Inl e \<Rightarrow> (backend', Inl e)
                     | Inr (chat', response') \<Rightarrow>
                         functionCallLoop exec send chat' backend' response' (callCount + 1)))
          else (backend, Inr (chat, response, callCount))
      | _ \<Rightarrow> (backend, Inr (chat, response, callCount)))"
  by pat_completeness auto
termination
  by (relation "measure (\<lambda>(exec, send, chat, backend, response, callCount). maxCalls - callCount)")
     auto

declare functionCallLoop.simps [simp del]

subsection \<open>The session store and the history of a session\<close>

text \<open>
  A session is its history; \<open>createdAt\<close>, a reading of the clock, is left out, as is
  the processing time of the reply. The model is given the history to read: the model
  of the chat object takes it as a value.
\<close>

record session =
  history :: "message list"

record 'b server =
  sessions :: "string \<rightharpoonup> session"
  backend :: 'b

text \<open>
  \<open>session.history.push(user, model)\<close>, then
  \<open>if (session.history.length > 40) session.history = session.history.slice(-40)\<close>.
\<close>

definition updateHistory :: "message list \<Rightarrow> string \<Rightarrow> string \<Rightarrow> message list" where
  "updateHistory h message finalResponse =
     (let h' = h @ [\<lparr>msg_role = User, msg_text = message\<rparr>,
                    \<lparr>msg_role = Model, msg_text = finalResponse\<rparr>]
      in if length h' > 40 then drop (length h' - 40) h' else h')"

subsection \<open>POST /chat\<close>

record chat_reply =
  cr_response :: string
  cr_sessionId :: string
  cr_toolsUsed :: nat

text \<open>Status 200 with the reply, 400 with an error, 500 with an error and its details.\<close>

datatype http_reply = Ok chat_reply | BadRequest string | ServerError string string

definition fallbackAfterTools :: string where
  "fallbackAfterTools = ''I've processed your request. Please let me know if you need any clarification or would like to proceed with your order.''"

definition fallbackNoTools :: string where
  "fallbackNoTools = ''I'm here to help you order food! Try asking me to search for restaurants, view menus, or place an order.''"

text \<open>
  The session id of the request, or \<open>`session_${Date.now()}`\<close> when the request has
  none; \<open>now\<close> is the reading of the clock.
\<close>

definition sessionIdOf :: "string option \<Rightarrow> nat \<Rightarrow> string" where
  "sessionIdOf requested now =
     (case requested of Some sessionId \<Rightarrow> sessionId | None \<Rightarrow> ''session_'' @ natToString now)"

definition initSession :: "'b server \<Rightarrow> string \<Rightarrow> 'b server" where
  "initSession st sessionId =
     (if sessions st sessionId = None
      then st\<lparr>sessions := (sessions st)(sessionId \<mapsto> \<lparr>history = []\<rparr>)\<rparr>
      else st)"

definition historyOf :: "'b server \<Rightarrow> string \<Rightarrow> message list" where
  "historyOf st sessionId = (case sessions st sessionId of Some s \<Rightarrow> history s | None \<Rightarrow> [])"

text \<open>
  The endpoint of \<open>gemini-food-ordering.js\<close>. The tools are run through the registry;
  an exception of a tool or of the model is caught by the handler's \<open>catch\<close> and
  answered with status 500, and the history is not touched then. When \<open>response.text()\<close>
  throws, one of two fixed texts is the answer.
\<close>

definition chat ::
  "('i, 'a, 'b, 'r) tool_registry \<Rightarrow> ('a, 'r, 'c) model \<Rightarrow> 'b server \<Rightarrow> nat \<Rightarrow> string
     \<Rightarrow> string option \<Rightarrow> 'b server \<times> http_reply" where
  "chat tools model st now message requested =
     (let sessionId = sessionIdOf requested now
      in if message = [] then (st, BadRequest ''Message required'')
         else
           (let st1 = initSession st sessionId;
                chat0 = startChat model (historyOf st1 sessionId)
            in case sendMessage model chat0 (UserText message) of
                 Inl e \<Rightarrow> (st1, ServerError ''Request failed'' (errorText e))
               | Inr (chat1, response) \<Rightarrow>
                   (case functionCallLoop (\<lambda>name args. executeTool tools name args sessionId)
                           (sendMessage model) chat1 (backend st1) response 0 of
                      (backend', Inl e) \<Rightarrow>
                        (st1\<lparr>backend := backend'\<rparr>, ServerError ''Request failed'' (errorText e))
                    | (backend', Inr (chat2, response', callCount)) \<Rightarrow>
                        (let finalResponse =
                               (case resp_text response' of
                                  Inr t \<Rightarrow> t
                                | Inl e \<Rightarrow>
                                    if callCount > 0 then fallbackAfterTools
                                    else fallbackNoTools)
                         in (st1\<lparr>backend := backend',
                                 sessions := (sessions st1)(sessionId \<mapsto>
                                   \<lparr>history = updateHistory (historyOf st1 sessionId) message
                                                finalResponse\<rparr>)\<rparr>,
                             Ok \<lparr>cr_response = finalResponse, cr_sessionId = sessionId,
                                 cr_toolsUsed = callCount\<rparr>)))))"


section \<open>Reachable states and what holds in them\<close>

text \<open>
  The states of the service that a run of the program can be in: the state after the
  constructor, and every state that one of the three writing operations leaves.
  \<open>searchRestaurants\<close>, \<open>getMenu\<close> and \<open>viewCart\<close> write nothing.
\<close>

inductive reachable :: "service \<Rightarrow> bool" where
  start: "reachable newService"
| add: "reachable s \<Longrightarrow>
    reachable (fst (addToCart s sessionId restaurantId itemId quantity customizations))"
| place: "reachable s \<Longrightarrow>
    reachable (fst (placeOrder s now placedAt sessionId deliveryAddress paymentMethod))"
| track: "reachable s \<Longrightarrow> reachable (fst (trackOrder s orderId))"

definition lineTotal :: "cart_item list \<Rightarrow> int" where
  "lineTotal items = sum_list (map (\<lambda>item. ci_price item * ci_quantity item) items)"

definition cartOk :: "cart \<Rightarrow> bool" where
  "cartOk c = (list_all (\<lambda>item. ci_subtotal item = ci_price item * ci_quantity item) (c_items c)
               \<and> c_total c = lineTotal (c_items c))"

text \<open>The cart a call of \<open>addToCart\<close> works on, and the line it builds.\<close>

definition cartBefore :: "service \<Rightarrow> string \<Rightarrow> string \<Rightarrow> cart" where
  "cartBefore s sid rid = (case carts s sid of None \<Rightarrow> emptyCartFor rid | Some c \<Rightarrow> c)"

definition newLine :: "menu_item \<Rightarrow> string \<Rightarrow> int \<Rightarrow> string option \<Rightarrow> cart_item" where
  "newLine foundItem itemId quantity customizations =
     \<lparr>ci_itemId = itemId, ci_name = mi_name foundItem, ci_price = mi_price foundItem,
      ci_quantity = quantity, ci_customizations = customizations,
      ci_subtotal = mi_price foundItem * quantity\<rparr>"

definition serviceOk :: "service \<Rightarrow> bool" where
  "serviceOk s = ((\<forall>sid c. carts s sid = Some c \<longrightarrow> cartOk c)
               \<and> (\<forall>oid ord. orders s oid = Some ord \<longrightarrow> o_status ord \<in> set statuses))"

text \<open>A state with one cart of one line, for the examples.\<close>

definition oneLineCart :: service where
  "oneLineCart = fst (addToCart newService ''s1'' ''rest_001'' ''item_001'' 2 None)"

text \<open>The lines of a session's cart, none when the session has no cart.\<close>

definition prevItems :: "service \<Rightarrow> string \<Rightarrow> cart_item list" where
  "prevItems s sessionId = (case carts s sessionId of None \<Rightarrow> [] | Some c \<Rightarrow> c_items c)"


text \<open>
  The two filters of \<open>searchRestaurants\<close> as predicates on a restaurant, and the array
  the location selects when its key is not an inherited property.
\<close>

definition cuisineMatches :: "string option \<Rightarrow> restaurant \<Rightarrow> bool" where
  "cuisineMatches cuisine r =
     (case cuisine of
        None \<Rightarrow> True
      | Some c \<Rightarrow> includesStr (toLowerCase (r_cuisine r)) (toLowerCase c))"

definition priceMatches :: "string option \<Rightarrow> restaurant \<Rightarrow> bool" where
  "priceMatches priceRange r =
     (case priceRange of
        None \<Rightarrow> True
      | Some p \<Rightarrow> p = [] \<or> r_priceRange r = p)"

definition regionOf :: "string \<Rightarrow> restaurant list" where
  "regionOf location =
     (case map_of generateMockRestaurants (removeWhitespace (toLowerCase location)) of
        Some rs \<Rightarrow> rs
      | None \<Rightarrow> (case map_of generateMockRestaurants ''vadodara'' of Some rs \<Rightarrow> rs | None \<Rightarrow> []))"

text \<open>
  The registry that a list of registrations builds, and a tool named \<open>view_cart\<close>
  whose handler returns its own description, for the examples.
\<close>

definition registryOf ::
  "('i, ('a, 'b, 'r) handler) tool_definition list \<Rightarrow> ('i, 'a, 'b, 'r) tool_registry" where
  "registryOf defs = foldl registerTool [] defs"

definition viewCartTool :: "string \<Rightarrow> (unit, (unit, nat, string) handler) tool_definition" where
  "viewCartTool description =
     \<lparr>td_name = ''view_cart'', td_description = description, td_inputSchema = (),
      td_handler = (\<lambda>args sessionId backend. (backend, Inr description))\<rparr>"





text \<open>
  Counting tool executions: a handler wrapped so that the state it writes to carries a
  counter that goes up by one each time the handler runs, and a registry with every
  handler wrapped so.
\<close>

definition countedHandler :: "('a, 'b, 'r) handler \<Rightarrow> ('a, 'b \<times> nat, 'r) handler" where
  "countedHandler h args sessionId bk =
     (case h args sessionId (fst bk) of (b', result) \<Rightarrow> ((b', Suc (snd bk)), result))"

definition countedTools ::
  "('i, 'a, 'b, 'r) tool_registry \<Rightarrow> ('i, 'a, 'b \<times> nat, 'r) tool_registry" where
  "countedTools tools =
     map (\<lambda>(name, tool).
            (name, \<lparr>td_name = td_name tool, td_description = td_description tool,
                    td_inputSchema = td_inputSchema tool,
                    td_handler = countedHandler (td_handler tool)\<rparr>)) tools"









section \<open>Lemmas on strings\<close>






text \<open>\<open>includesStr\<close> is the contiguous-sublist relation of the library.\<close>

lemma includesStr_sublist: "includesStr s sub \<longleftrightarrow> sublist sub s"
proof (induction s)
  case Nil
  then show ?case by auto
next
  case (Cons c cs)
  have "take (length sub) (c # cs) = sub \<longleftrightarrow> prefix sub (c # cs)"
    by (metis append_take_drop_id prefix_def append_eq_conv_conj)
  with Cons show ?case by (simp add: sublist_Cons_right)
qed


section \<open>Lemmas on the service\<close>

lemma foldl_subtotal: "foldl (\<lambda>sum item. sum + ci_subtotal item) a items = a + sum_list (map ci_subtotal items)"
  by (induction items arbitrary: a) simp_all

lemma sum_subtotal_lineTotal:
  "list_all (\<lambda>item. ci_subtotal item = ci_price item * ci_quantity item) items \<Longrightarrow>
   sum_list (map ci_subtotal items) = lineTotal items"
  by (induction items) (simp_all add: lineTotal_def)

lemma ensureCart_carts:
  "carts (ensureCart s sid rid) sid = Some (case carts s sid of None \<Rightarrow> emptyCartFor rid | Some c \<Rightarrow> c)"
  by (simp add: ensureCart_def split: option.splits)

lemma ensureCart_other: "sid' \<noteq> sid \<Longrightarrow> carts (ensureCart s sid rid) sid' = carts s sid'"
  by (simp add: ensureCart_def)

lemma addToCart_fail:
  assumes "snd (addToCart s sid rid iid q cz) = Inl e"
  shows "fst (addToCart s sid rid iid q cz) = ensureCart s sid rid"
  using assms
  by (simp add: addToCart_def Let_def split: property.splits option.splits)

lemma addToCart_found:
  assumes "getProperty getMenus rid = Own m" and "findItem (m_categories m) iid = Some it"
  shows "\<exists>msg. addToCart s sid rid iid q cz =
     (s\<lparr>carts := (carts s)(sid \<mapsto>
          (cartBefore s sid rid)\<lparr>c_items := c_items (cartBefore s sid rid) @ [newLine it iid q cz],
             c_total := sum_list (map ci_subtotal (c_items (cartBefore s sid rid) @ [newLine it iid q cz]))\<rparr>)\<rparr>,
      Inr \<lparr>ar_message = msg,
           ar_cart = (cartBefore s sid rid)\<lparr>c_items := c_items (cartBefore s sid rid) @ [newLine it iid q cz],
             c_total := sum_list (map ci_subtotal (c_items (cartBefore s sid rid) @ [newLine it iid q cz]))\<rparr>\<rparr>)"
  using assms
  by (simp add: addToCart_def Let_def ensureCart_def cartBefore_def newLine_def foldl_subtotal
      split: option.splits)

lemma addToCart_success_found:
  assumes "snd (addToCart s sid rid iid q cz) = Inr reply"
  shows "\<exists>m it. getProperty getMenus rid = Own m \<and> findItem (m_categories m) iid = Some it"
  using assms
  by (simp add: addToCart_def Let_def split: property.splits option.splits)

lemma cartOk_empty: "cartOk (emptyCartFor rid)"
  by (simp add: cartOk_def emptyCartFor_def lineTotal_def)

lemma cartOk_append:
  assumes "cartOk c"
  shows "cartOk (c\<lparr>c_items := c_items c @ [newLine it iid q cz],
                   c_total := sum_list (map ci_subtotal (c_items c @ [newLine it iid q cz]))\<rparr>)"
proof -
  have all: "list_all (\<lambda>item. ci_subtotal item = ci_price item * ci_quantity item)
               (c_items c @ [newLine it iid q cz])"
    using assms by (simp add: cartOk_def newLine_def)
  from sum_subtotal_lineTotal [OF all] all show ?thesis
    by (simp add: cartOk_def)
qed

lemma cartOk_cartBefore: "serviceOk s \<Longrightarrow> cartOk (cartBefore s sid rid)"
  by (auto simp: serviceOk_def cartBefore_def cartOk_empty split: option.splits)

lemma serviceOk_ensureCart: "serviceOk s \<Longrightarrow> serviceOk (ensureCart s sid rid)"
  by (auto simp: serviceOk_def ensureCart_def cartOk_empty)

lemma serviceOk_addToCart:
  assumes "serviceOk s"
  shows "serviceOk (fst (addToCart s sid rid iid q cz))"
proof (cases "snd (addToCart s sid rid iid q cz)")
  case (Inl e)
  from addToCart_fail [OF Inl] assms show ?thesis
    by (simp add: serviceOk_ensureCart)
next
  case (Inr reply)
  from addToCart_success_found [OF Inr] obtain m it where
    found: "getProperty getMenus rid = Own m" "findItem (m_categories m) iid = Some it"
    by blast
  from addToCart_found [OF found, of s sid q cz] have
    eq: "fst (addToCart s sid rid iid q cz) =
      s\<lparr>carts := (carts s)(sid \<mapsto>
          (cartBefore s sid rid)\<lparr>c_items := c_items (cartBefore s sid rid) @ [newLine it iid q cz],
             c_total := sum_list (map ci_subtotal (c_items (cartBefore s sid rid) @ [newLine it iid q cz]))\<rparr>)\<rparr>"
    by auto
  have "cartOk ((cartBefore s sid rid)\<lparr>c_items := c_items (cartBefore s sid rid) @ [newLine it iid q cz],
             c_total := sum_list (map ci_subtotal (c_items (cartBefore s sid rid) @ [newLine it iid q cz]))\<rparr>)"
    by (rule cartOk_append) (rule cartOk_cartBefore [OF assms])
  with assms show ?thesis
    unfolding eq by (simp add: serviceOk_def)
qed

lemma serviceOk_placeOrder:
  assumes "serviceOk s"
  shows "serviceOk (fst (placeOrder s now placedAt sid addr pay))"
  using assms
  by (auto simp: serviceOk_def placeOrder_def Let_def statuses_def split: option.splits if_splits)

lemma indexOf_statuses:
  "indexOf statuses ''confirmed'' = 0" "indexOf statuses ''preparing'' = 1"
  "indexOf statuses ''out_for_delivery'' = 2" "indexOf statuses ''delivered'' = 3"
  by (simp_all add: statuses_def)

lemma advance_cases:
  "o_status ord = ''confirmed'' \<Longrightarrow> advance ord = ord\<lparr>o_status := ''preparing''\<rparr>"
  "o_status ord = ''preparing'' \<Longrightarrow> advance ord = ord\<lparr>o_status := ''out_for_delivery''\<rparr>"
  "o_status ord = ''out_for_delivery'' \<Longrightarrow> advance ord = ord\<lparr>o_status := ''delivered''\<rparr>"
  "o_status ord = ''delivered'' \<Longrightarrow> advance ord = ord"
  by (simp_all add: advance_def indexOf_statuses) (simp_all add: statuses_def)

lemma status_cases:
  "st \<in> set statuses \<Longrightarrow>
     st = ''confirmed'' \<or> st = ''preparing'' \<or> st = ''out_for_delivery'' \<or> st = ''delivered''"
  by (simp add: statuses_def)

lemma advance_status_in: "o_status ord \<in> set statuses \<Longrightarrow> o_status (advance ord) \<in> set statuses"
  using status_cases [of "o_status ord"] advance_cases [of ord]
  by (auto simp: statuses_def)

lemma serviceOk_trackOrder:
  assumes "serviceOk s"
  shows "serviceOk (fst (trackOrder s oid))"
  using assms
  by (auto simp: serviceOk_def trackOrder_def Let_def advance_status_in split: option.splits)

lemma reachable_serviceOk: "reachable s \<Longrightarrow> serviceOk s"
proof (induction rule: reachable.induct)
  case start
  show ?case by (simp add: serviceOk_def newService_def)
next
  case (add s sessionId restaurantId itemId quantity customizations)
  then show ?case by (simp add: serviceOk_addToCart)
next
  case (place s now placedAt sessionId deliveryAddress paymentMethod)
  then show ?case by (simp add: serviceOk_placeOrder)
next
  case (track s orderId)
  then show ?case by (simp add: serviceOk_trackOrder)
qed

lemma placeOrder_fail:
  "snd (placeOrder s now placedAt sid addr pay) = Inl e \<Longrightarrow>
     e = CartIsEmpty \<and> fst (placeOrder s now placedAt sid addr pay) = s
     \<and> (carts s sid = None \<or> (\<exists>c. carts s sid = Some c \<and> c_items c = []))"
  by (auto simp: placeOrder_def Let_def split: option.splits if_splits)

lemma placeOrder_success:
  "snd (placeOrder s now placedAt sid addr pay) = Inr ord \<Longrightarrow>
     (\<exists>c. carts s sid = Some c \<and> c_items c \<noteq> [] \<and> o_items ord = c_items c
          \<and> o_total ord = c_total c)
     \<and> o_orderId ord = ''ORD'' @ natToString now
     \<and> o_status ord = ''confirmed''
     \<and> o_deliveryAddress ord = addr \<and> o_paymentMethod ord = pay
     \<and> orders (fst (placeOrder s now placedAt sid addr pay)) = (orders s)(o_orderId ord \<mapsto> ord)
     \<and> carts (fst (placeOrder s now placedAt sid addr pay)) = (carts s)(sid := None)"
  by (auto simp: placeOrder_def Let_def split: option.splits if_splits)

lemma placeOrder_total:
  "(\<exists>e. snd (placeOrder s now placedAt sid addr pay) = Inl e) =
     (carts s sid = None \<or> (\<exists>c. carts s sid = Some c \<and> c_items c = []))"
  by (auto simp: placeOrder_def Let_def split: option.splits if_splits)

lemma viewCart_no_cart: "carts s sid = None \<Longrightarrow> vr_cart (viewCart s sid) = emptyCartView"
  by (simp add: viewCart_def)

lemma trackOrder_found:
  "orders s oid = Some ord \<Longrightarrow>
     trackOrder s oid =
       (s\<lparr>orders := (orders s)(oid \<mapsto> advance ord)\<rparr>,
        Inr \<lparr>tv_orderId = o_orderId (advance ord), tv_status = o_status (advance ord),
             tv_estimatedDelivery = o_estimatedDelivery (advance ord),
             tv_deliveryAddress = o_deliveryAddress (advance ord),
             tv_total = o_total (advance ord)\<rparr>)"
  by (simp add: trackOrder_def Let_def)

lemma advance_only_status: "advance ord = ord\<lparr>o_status := o_status (advance ord)\<rparr>"
  by (simp add: advance_def Let_def)

lemma trackOrder_delivered:
  assumes "orders s oid = Some ord" and "o_status ord = ''delivered''"
  shows "fst (trackOrder s oid) = s"
proof -
  have "(orders s)(oid \<mapsto> ord) = orders s"
    using assms(1) by (rule map_upd_triv)
  then show ?thesis
    using assms by (simp add: trackOrder_found advance_cases)
qed

lemma reachable_oneLineCart: "reachable oneLineCart"
  unfolding oneLineCart_def by (intro reachable.add reachable.start)

lemma cartBefore_items: "c_items (cartBefore s sid rid) = prevItems s sid"
  by (simp add: cartBefore_def prevItems_def emptyCartFor_def split: option.splits)

lemma cartBefore_restaurantId:
  "c_restaurantId (cartBefore s sid rid) = (case carts s sid of None \<Rightarrow> rid | Some c \<Rightarrow> c_restaurantId c)"
  by (simp add: cartBefore_def emptyCartFor_def split: option.splits)

lemma addToCart_reply:
  assumes "getProperty getMenus rid = Own m" and "findItem (m_categories m) iid = Some it"
  shows "\<exists>reply. snd (addToCart s sid rid iid q cz) = Inr reply
           \<and> carts (fst (addToCart s sid rid iid q cz)) = (carts s)(sid \<mapsto> ar_cart reply)
           \<and> orders (fst (addToCart s sid rid iid q cz)) = orders s
           \<and> c_items (ar_cart reply) = prevItems s sid @ [newLine it iid q cz]
           \<and> c_total (ar_cart reply) = sum_list (map ci_subtotal (prevItems s sid)) + mi_price it * q
           \<and> c_restaurantId (ar_cart reply)
                = (case carts s sid of None \<Rightarrow> rid | Some c \<Rightarrow> c_restaurantId c)"
proof -
  from addToCart_found [OF assms, of s sid q cz] obtain msg :: string where
    eq: "addToCart s sid rid iid q cz =
     (s\<lparr>carts := (carts s)(sid \<mapsto>
          (cartBefore s sid rid)\<lparr>c_items := c_items (cartBefore s sid rid) @ [newLine it iid q cz],
             c_total := sum_list (map ci_subtotal (c_items (cartBefore s sid rid) @ [newLine it iid q cz]))\<rparr>)\<rparr>,
      Inr \<lparr>ar_message = msg,
           ar_cart = (cartBefore s sid rid)\<lparr>c_items := c_items (cartBefore s sid rid) @ [newLine it iid q cz],
             c_total := sum_list (map ci_subtotal (c_items (cartBefore s sid rid) @ [newLine it iid q cz]))\<rparr>\<rparr>)"
    by blast
  show ?thesis
    unfolding eq by (simp add: cartBefore_items cartBefore_restaurantId) (simp add: newLine_def)
qed






lemma addToCart_binding:
  "\<exists>c'. carts (fst (addToCart s sid rid iid q cz)) sid = Some c'
      \<and> c_restaurantId c' = (case carts s sid of None \<Rightarrow> rid | Some c \<Rightarrow> c_restaurantId c)"
proof (cases "snd (addToCart s sid rid iid q cz)")
  case (Inl e)
  from addToCart_fail [OF Inl] show ?thesis
    by (simp add: ensureCart_carts emptyCartFor_def split: option.splits)
next
  case (Inr reply)
  from addToCart_success_found [OF Inr] obtain m it where
    found: "getProperty getMenus rid = Own m" "findItem (m_categories m) iid = Some it"
    by blast
  from addToCart_reply [OF found, of s sid q cz] show ?thesis
    by auto
qed

lemma addToCart_other_sessions:
  "sid' \<noteq> sid \<Longrightarrow> carts (fst (addToCart s sid rid iid q cz)) sid' = carts s sid'"
proof (cases "snd (addToCart s sid rid iid q cz)")
  case (Inl e)
  assume "sid' \<noteq> sid"
  with addToCart_fail [OF Inl] show ?thesis
    by (simp add: ensureCart_other)
next
  case (Inr reply)
  assume ne: "sid' \<noteq> sid"
  from addToCart_success_found [OF Inr] obtain m it where
    found: "getProperty getMenus rid = Own m" "findItem (m_categories m) iid = Some it"
    by blast
  from addToCart_reply [OF found, of s sid q cz] ne show ?thesis
    by auto
qed

lemma includesStr_empty: "includesStr s []"
  by (induction s) simp_all

lemma lookupRestaurants_listed:
  "removeWhitespace (toLowerCase location) \<notin> set objectPrototypeKeys \<Longrightarrow>
     lookupRestaurants (removeWhitespace (toLowerCase location)) = RestaurantList (regionOf location)"
  by (simp add: lookupRestaurants_def getProperty_def regionOf_def split: option.splits)
     (simp add: generateMockRestaurants_def)

lemma filter_filter_conj: "filter p (filter q xs) = filter (\<lambda>x. q x \<and> p x) xs"
  by (induction xs) simp_all

lemma searchRestaurants_listed:
  assumes "removeWhitespace (toLowerCase location) \<notin> set objectPrototypeKeys"
  shows "searchRestaurants location cuisine priceRange =
     Inr \<lparr>sr_location = location,
          sr_restaurants = RestaurantList
            (filter (\<lambda>r. cuisineMatches cuisine r \<and> priceMatches priceRange r)
               (regionOf location))\<rparr>"
proof -
  have c: "includesStr s (toLowerCase []) = True" for s
    by (simp add: toLowerCase_def includesStr_empty)
  show ?thesis
    unfolding searchRestaurants_def Let_def lookupRestaurants_listed [OF assms]
    by (cases cuisine; cases priceRange)
       (auto simp: cuisineMatches_def priceMatches_def filter_filter_conj c
             intro!: filter_cong)
qed

lemma searchRestaurants_narrows:
  assumes "removeWhitespace (toLowerCase location) \<notin> set objectPrototypeKeys"
    and "searchRestaurants location cuisine priceRange = Inr a"
    and "searchRestaurants location None None = Inr b"
    and "sr_restaurants a = RestaurantList xs" and "sr_restaurants b = RestaurantList ys"
  shows "set xs \<subseteq> set ys \<and> ys = regionOf location"
  using assms(2-) unfolding searchRestaurants_listed [OF assms(1)]
  by (auto simp: cuisineMatches_def priceMatches_def)

section \<open>Lemmas on the registry, the history and the loop\<close>

lemma registerTool_map_of: "map_of (registerTool tools d) = (map_of tools)(td_name d \<mapsto> d)"
  by (simp add: registerTool_def update_conv')

lemma registerTool_keys:
  "map fst (registerTool tools d) =
     (if td_name d \<in> set (map fst tools) then map fst tools else map fst tools @ [td_name d])"
  by (simp only: registerTool_def update_keys)

lemma registerTool_distinct:
  "distinct (map fst tools) \<Longrightarrow> distinct (map fst (registerTool tools d))"
  by (simp add: registerTool_def distinct_update)

lemma registryOf_snoc: "registryOf (ds @ [d]) = registerTool (registryOf ds) d"
  by (simp add: registryOf_def)

lemma registryOf_distinct: "distinct (map fst (registryOf ds))"
  by (induction ds rule: rev_induct) (simp_all add: registryOf_def registerTool_distinct)

lemma registryOf_map_of:
  "map_of (registryOf ds) name = find (\<lambda>d. td_name d = name) (rev ds)"
  by (induction ds rule: rev_induct)
     (simp_all add: registryOf_snoc registerTool_map_of, simp add: registryOf_def)


























lemma executeTool_countedTools:
  "executeTool (countedTools tools) name args sid bk =
     (case map_of tools name of
        None \<Rightarrow> (bk, Inl (ToolNotFound name))
      | Some tool \<Rightarrow> countedHandler (td_handler tool) args sid bk)"
proof -
  have "map_of (countedTools tools) name =
      map_option (\<lambda>tool. \<lparr>td_name = td_name tool, td_description = td_description tool,
                    td_inputSchema = td_inputSchema tool,
                    td_handler = countedHandler (td_handler tool)\<rparr>) (map_of tools name)"
    unfolding countedTools_def by (induction tools) auto
  then show ?thesis
    by (simp add: executeTool_def split: option.splits)
qed

text \<open>Apart from the counter, the wrapped registry does what the registry does.\<close>

lemma executeTool_countedTools_fst:
  "fst (fst (executeTool (countedTools tools) name args sid bk))
     = fst (executeTool tools name args sid (fst bk))
   \<and> snd (executeTool (countedTools tools) name args sid bk)
     = snd (executeTool tools name args sid (fst bk))"
  unfolding executeTool_countedTools
  by (simp add: executeTool_def countedHandler_def split: option.splits prod.splits)
























section \<open>The claims\<close>




text \<open>
  C2. \<open>placeOrder\<close> fails with the empty-cart error exactly when the session has no
  cart or a cart with no items, and then changes nothing. Otherwise it stores an order
  holding the cart's items and total and removes the cart in the same step, so that
  \<open>viewCart\<close> on the state it leaves returns the empty cart \<open>{items: [], total: 0}\<close>.
\<close>

theorem placeOrder_fails_iff_cart_empty:
  "(snd (placeOrder s now placedAt sid addr pay) = Inl CartIsEmpty
      \<longleftrightarrow> (carts s sid = None \<or> (\<exists>c. carts s sid = Some c \<and> c_items c = [])))
   \<and> (\<forall>e. snd (placeOrder s now placedAt sid addr pay) = Inl e
          \<longrightarrow> e = CartIsEmpty \<and> fst (placeOrder s now placedAt sid addr pay) = s)
   \<and> (\<forall>ord. snd (placeOrder s now placedAt sid addr pay) = Inr ord
          \<longrightarrow> (\<exists>c. carts s sid = Some c \<and> c_items c \<noteq> [] \<and> o_items ord = c_items c
                    \<and> o_total ord = c_total c)
              \<and> orders (fst (placeOrder s now placedAt sid addr pay))
                    = (orders s)(o_orderId ord \<mapsto> ord)
              \<and> carts (fst (placeOrder s now placedAt sid addr pay)) = (carts s)(sid := None)
              \<and> vr_cart (viewCart (fst (placeOrder s now placedAt sid addr pay)) sid)
                    = emptyCartView)"
proof (intro conjI allI impI)
  show "(snd (placeOrder s now placedAt sid addr pay) = Inl CartIsEmpty)
      = (carts s sid = None \<or> (\<exists>c. carts s sid = Some c \<and> c_items c = []))"
    using placeOrder_total [of s now placedAt sid addr pay]
      placeOrder_fail [of s now placedAt sid addr pay]
    by blast
next
  fix e assume "snd (placeOrder s now placedAt sid addr pay) = Inl e"
  from placeOrder_fail [OF this]
  show "e = CartIsEmpty" and "fst (placeOrder s now placedAt sid addr pay) = s"
    by simp_all
next
  fix ord assume ok: "snd (placeOrder s now placedAt sid addr pay) = Inr ord"
  from placeOrder_success [OF ok]
  show "\<exists>c. carts s sid = Some c \<and> c_items c \<noteq> [] \<and> o_items ord = c_items c
            \<and> o_total ord = c_total c"
    and "orders (fst (placeOrder s now placedAt sid addr pay)) = (orders s)(o_orderId ord \<mapsto> ord)"
    and gone: "carts (fst (placeOrder s now placedAt sid addr pay)) = (carts s)(sid := None)"
    by simp_all
  from gone show "vr_cart (viewCart (fst (placeOrder s now placedAt sid addr pay)) sid)
      = emptyCartView"
    by (simp add: viewCart_no_cart)
qed

theorem placeOrder_fails_iff_cart_empty_witness:
  "snd (placeOrder newService 1700 ''2025-01-01T00:00:00.000Z'' ''s1'' ''123 Main St'' ''card'')
     = Inl CartIsEmpty
   \<and> fst (placeOrder newService 1700 ''2025-01-01T00:00:00.000Z'' ''s1'' ''123 Main St'' ''card'')
     = newService
   \<and> (\<exists>ord. snd (placeOrder oneLineCart 1700 ''2025-01-01T00:00:00.000Z'' ''s1''
                    ''123 Main St'' ''card'') = Inr ord
          \<and> o_total ord = 160 \<and> length (o_items ord) = 1
          \<and> carts (fst (placeOrder oneLineCart 1700 ''2025-01-01T00:00:00.000Z'' ''s1''
                    ''123 Main St'' ''card'')) ''s1'' = None
          \<and> vr_cart (viewCart (fst (placeOrder oneLineCart 1700 ''2025-01-01T00:00:00.000Z''
                    ''s1'' ''123 Main St'' ''card'')) ''s1'') = emptyCartView)"
proof -
  let ?iso = "''2025-01-01T00:00:00.000Z''"
  have none: "carts newService ''s1'' = None"
    by (simp add: newService_def)
  have ok: "snd (placeOrder oneLineCart 1700 ?iso ''s1'' ''123 Main St'' ''card'')
     = Inr \<lparr>o_orderId = ''ORD1700'',
            o_items = [\<lparr>ci_itemId = ''item_001'', ci_name = ''Sev Usal'', ci_price = 80,
                        ci_quantity = 2, ci_customizations = None, ci_subtotal = 160\<rparr>],
            o_total = 160, o_deliveryAddress = ''123 Main St'', o_paymentMethod = ''card'',
            o_status = ''confirmed'', o_estimatedDelivery = ''30-35 mins'',
            o_placedAt = ?iso\<rparr>"
    by code_simp
  from none placeOrder_fails_iff_cart_empty [of newService 1700 ?iso "''s1''" "''123 Main St''" "''card''"]
  have a: "snd (placeOrder newService 1700 ?iso ''s1'' ''123 Main St'' ''card'') = Inl CartIsEmpty"
    and b: "fst (placeOrder newService 1700 ?iso ''s1'' ''123 Main St'' ''card'') = newService"
    by blast+
  from ok placeOrder_fails_iff_cart_empty [of oneLineCart 1700 ?iso "''s1''" "''123 Main St''" "''card''"]
  have c: "carts (fst (placeOrder oneLineCart 1700 ?iso ''s1'' ''123 Main St'' ''card''))
             = (carts oneLineCart)(''s1'' := None)"
    and d: "vr_cart (viewCart (fst (placeOrder oneLineCart 1700 ?iso ''s1'' ''123 Main St'' ''card'')) ''s1'')
             = emptyCartView"
    by blast+
  from a b c d ok show ?thesis by simp
qed

text \<open>
  C3. \<open>trackOrder\<close> on an unknown order id fails with the order-not-found error. On a
  stored order of a reachable state the status is one of the four of the sequence, and a
  call changes nothing but the status, which moves one step along confirmed, preparing,
  out_for_delivery, delivered; a delivered order stays delivered and the state is
  unchanged. Three calls on an order just placed end at delivered.
\<close>

theorem trackOrder_advances_one_step:
  "(orders s oid = None \<longrightarrow> trackOrder s oid = (s, Inl OrderNotFound))
   \<and> (\<forall>ord. reachable s \<and> orders s oid = Some ord \<longrightarrow>
        o_status ord \<in> {''confirmed'', ''preparing'', ''out_for_delivery'', ''delivered''}
        \<and> (\<exists>v. snd (trackOrder s oid) = Inr v
              \<and> orders (fst (trackOrder s oid)) = (orders s)(oid \<mapsto> ord\<lparr>o_status := tv_status v\<rparr>)
              \<and> carts (fst (trackOrder s oid)) = carts s
              \<and> (o_status ord = ''confirmed'' \<longrightarrow> tv_status v = ''preparing'')
              \<and> (o_status ord = ''preparing'' \<longrightarrow> tv_status v = ''out_for_delivery'')
              \<and> (o_status ord = ''out_for_delivery'' \<longrightarrow> tv_status v = ''delivered'')
              \<and> (o_status ord = ''delivered'' \<longrightarrow>
                    tv_status v = ''delivered'' \<and> fst (trackOrder s oid) = s)))
   \<and> (\<forall>ord. snd (placeOrder s now placedAt sid addr pay) = Inr ord \<longrightarrow>
        (\<exists>v. snd (trackOrder (fst (trackOrder (fst (trackOrder
                 (fst (placeOrder s now placedAt sid addr pay))
                 (o_orderId ord))) (o_orderId ord))) (o_orderId ord)) = Inr v
            \<and> tv_status v = ''delivered''))"
proof (intro conjI allI impI)
  assume "orders s oid = None"
  then show "trackOrder s oid = (s, Inl OrderNotFound)"
    by (simp add: trackOrder_def)
next
  fix ord assume a: "reachable s \<and> orders s oid = Some ord"
  then have st: "o_status ord \<in> set statuses"
    using reachable_serviceOk [of s] by (auto simp: serviceOk_def)
  then show "o_status ord \<in> {''confirmed'', ''preparing'', ''out_for_delivery'', ''delivered''}"
    by (simp add: statuses_def)
  let ?v = "\<lparr>tv_orderId = o_orderId (advance ord), tv_status = o_status (advance ord),
             tv_estimatedDelivery = o_estimatedDelivery (advance ord),
             tv_deliveryAddress = o_deliveryAddress (advance ord),
             tv_total = o_total (advance ord)\<rparr>"
  from a have found: "orders s oid = Some ord" by simp
  have "snd (trackOrder s oid) = Inr ?v"
    by (simp add: trackOrder_found [OF found])
  moreover have "orders (fst (trackOrder s oid)) = (orders s)(oid \<mapsto> ord\<lparr>o_status := tv_status ?v\<rparr>)"
    using advance_only_status [of ord] by (simp add: trackOrder_found [OF found])
  moreover have "carts (fst (trackOrder s oid)) = carts s"
    by (simp add: trackOrder_found [OF found])
  moreover have "o_status ord = ''confirmed'' \<longrightarrow> tv_status ?v = ''preparing''"
    "o_status ord = ''preparing'' \<longrightarrow> tv_status ?v = ''out_for_delivery''"
    "o_status ord = ''out_for_delivery'' \<longrightarrow> tv_status ?v = ''delivered''"
    "o_status ord = ''delivered'' \<longrightarrow> tv_status ?v = ''delivered'' \<and> fst (trackOrder s oid) = s"
    using trackOrder_delivered [OF found] by (simp_all add: advance_cases)
  ultimately show "\<exists>v. snd (trackOrder s oid) = Inr v
              \<and> orders (fst (trackOrder s oid)) = (orders s)(oid \<mapsto> ord\<lparr>o_status := tv_status v\<rparr>)
              \<and> carts (fst (trackOrder s oid)) = carts s
              \<and> (o_status ord = ''confirmed'' \<longrightarrow> tv_status v = ''preparing'')
              \<and> (o_status ord = ''preparing'' \<longrightarrow> tv_status v = ''out_for_delivery'')
              \<and> (o_status ord = ''out_for_delivery'' \<longrightarrow> tv_status v = ''delivered'')
              \<and> (o_status ord = ''delivered'' \<longrightarrow>
                    tv_status v = ''delivered'' \<and> fst (trackOrder s oid) = s)"
    by blast
next
  fix ord assume ok: "snd (placeOrder s now placedAt sid addr pay) = Inr ord"
  let ?s0 = "fst (placeOrder s now placedAt sid addr pay)"
  let ?oid = "o_orderId ord"
  let ?s1 = "fst (trackOrder ?s0 ?oid)"
  let ?s2 = "fst (trackOrder ?s1 ?oid)"
  from placeOrder_success [OF ok] have
    o0: "orders ?s0 ?oid = Some ord" and st0: "o_status ord = ''confirmed''"
    by simp_all
  have o1: "orders ?s1 ?oid = Some (ord\<lparr>o_status := ''preparing''\<rparr>)"
    by (simp add: trackOrder_found [OF o0] advance_cases st0)
  have o2: "orders ?s2 ?oid = Some (ord\<lparr>o_status := ''out_for_delivery''\<rparr>)"
    by (simp add: trackOrder_found [OF o1] advance_cases)
  show "\<exists>v. snd (trackOrder ?s2 ?oid) = Inr v \<and> tv_status v = ''delivered''"
    by (simp add: trackOrder_found [OF o2] advance_cases)
qed

theorem trackOrder_advances_one_step_witness:
  "trackOrder newService ''ORD1'' = (newService, Inl OrderNotFound)
   \<and> (\<exists>v. snd (trackOrder (fst (placeOrder oneLineCart 1700 ''2025-01-01T00:00:00.000Z'' ''s1''
                 ''123 Main St'' ''card'')) ''ORD1700'') = Inr v
          \<and> tv_status v = ''preparing'')
   \<and> (\<exists>v. snd (trackOrder (fst (trackOrder (fst (trackOrder
                 (fst (placeOrder oneLineCart 1700 ''2025-01-01T00:00:00.000Z'' ''s1''
                    ''123 Main St'' ''card''))
                 ''ORD1700'')) ''ORD1700'')) ''ORD1700'') = Inr v
          \<and> tv_status v = ''delivered'')"
proof -
  let ?iso = "''2025-01-01T00:00:00.000Z''"
  let ?ord = "\<lparr>o_orderId = ''ORD1700'',
            o_items = [\<lparr>ci_itemId = ''item_001'', ci_name = ''Sev Usal'', ci_price = 80,
                        ci_quantity = 2, ci_customizations = None, ci_subtotal = 160\<rparr>],
            o_total = 160, o_deliveryAddress = ''123 Main St'', o_paymentMethod = ''card'',
            o_status = ''confirmed'', o_estimatedDelivery = ''30-35 mins'',
            o_placedAt = ?iso\<rparr>"
  let ?s0 = "fst (placeOrder oneLineCart 1700 ?iso ''s1'' ''123 Main St'' ''card'')"
  have none: "orders newService ''ORD1'' = None"
    by (simp add: newService_def)
  have ok: "snd (placeOrder oneLineCart 1700 ?iso ''s1'' ''123 Main St'' ''card'') = Inr ?ord"
    by code_simp
  have stored: "orders ?s0 ''ORD1700'' = Some ?ord"
    by code_simp
  have reach: "reachable ?s0"
    by (intro reachable.place reachable_oneLineCart)
  note step = trackOrder_advances_one_step
  from none step [of newService "''ORD1''"]
  have a: "trackOrder newService ''ORD1'' = (newService, Inl OrderNotFound)"
    by blast
  from reach stored step [of ?s0 "''ORD1700''"]
  have b: "\<exists>v. snd (trackOrder ?s0 ''ORD1700'') = Inr v \<and> tv_status v = ''preparing''"
    by fastforce
  from ok step [of oneLineCart "''ORD1''" 1700 ?iso "''s1''" "''123 Main St''" "''card''"]
  have c: "\<exists>v. snd (trackOrder (fst (trackOrder (fst (trackOrder ?s0 ''ORD1700''))
                 ''ORD1700'')) ''ORD1700'') = Inr v \<and> tv_status v = ''delivered''"
    by fastforce
  from a b c show ?thesis by blast
qed



text \<open>
  C5. \<open>searchRestaurants\<close> at a location whose normalised key is a property that the
  object of regions inherits: the reply binds \<open>restaurants\<close> to the inherited value, which
  is the list of no region, and with a cuisine or a price filter the call throws a
  TypeError. For every other location \<open>searchRestaurants_listed\<close> above gives the
  reply: the restaurants of the keyed region, or of vadodara when there is no such key,
  that pass both filters, in source order.
\<close>

theorem searchRestaurants_inherited_key:
  "searchRestaurants ''Constructor'' None None
     = Inr \<lparr>sr_location = ''Constructor'', sr_restaurants = InheritedValue ''constructor''\<rparr>
   \<and> searchRestaurants ''constructor'' (Some ''Italian'') None = Inl TypeError
   \<and> searchRestaurants ''__proto__'' None (Some ''budget'') = Inl TypeError"
  by code_simp







text \<open>
  C8, as the program behaves. Registering a second tool under the name \<open>view_cart\<close>
  does not fail: the registry then holds the second definition only, and \<open>executeTool\<close>
  runs the second handler.
\<close>

theorem registerTool_overwrites_duplicate:
  "registerTool (registerTool [] (viewCartTool ''first'')) (viewCartTool ''second'')
     = [(''view_cart'', viewCartTool ''second'')]
   \<and> executeTool (registerTool (registerTool [] (viewCartTool ''first'')) (viewCartTool ''second''))
        ''view_cart'' () ''s1'' (0::nat) = (0, Inr ''second'')
   \<and> viewCartTool ''second'' \<noteq> viewCartTool ''first''"
proof (intro conjI)
  show r: "registerTool (registerTool [] (viewCartTool ''first'')) (viewCartTool ''second'')
     = [(''view_cart'', viewCartTool ''second'')]"
    by (simp add: registerTool_def viewCartTool_def)
  show "executeTool (registerTool (registerTool [] (viewCartTool ''first'')) (viewCartTool ''second''))
        ''view_cart'' () ''s1'' (0::nat) = (0, Inr ''second'')"
    unfolding r by (simp add: executeTool_def viewCartTool_def)
  have "td_description (viewCartTool ''second'') \<noteq> td_description (viewCartTool ''first'')"
    by (simp add: viewCartTool_def)
  then show "viewCartTool ''second'' \<noteq> viewCartTool ''first''"
    by auto
qed

text \<open>
  C8, amended. \<open>registerTool\<close> never fails. It maps the name of the definition to that
  definition, replacing a definition registered under the same name before (at the same
  place in the order of the registry) and leaving every other name as it was. Names stay
  unique: a registry built by registrations maps every name to at most one definition,
  the one registered last under that name.
\<close>

theorem registerTool_replaces_and_keeps_names_unique:
  "map_of (registerTool tools d) = (map_of tools)(td_name d \<mapsto> d)
   \<and> map fst (registerTool tools d) =
       (if td_name d \<in> set (map fst tools) then map fst tools else map fst tools @ [td_name d])
   \<and> (distinct (map fst tools) \<longrightarrow> distinct (map fst (registerTool tools d)))
   \<and> distinct (map fst (registryOf ds))
   \<and> map_of (registryOf ds) name = find (\<lambda>d. td_name d = name) (rev ds)"
  by (intro conjI impI registerTool_map_of registerTool_keys registerTool_distinct
        registryOf_distinct registryOf_map_of)

theorem registerTool_replaces_and_keeps_names_unique_witness:
  "map_of (registerTool [(''view_cart'', viewCartTool ''first'')] (viewCartTool ''second''))
       ''view_cart'' = Some (viewCartTool ''second'')
   \<and> map fst (registerTool [(''view_cart'', viewCartTool ''first'')] (viewCartTool ''second''))
       = [''view_cart'']
   \<and> distinct (map fst (registerTool [(''view_cart'', viewCartTool ''first'')]
                          (viewCartTool ''second'')))"
proof -
  let ?tools = "[(''view_cart'', viewCartTool ''first'')]"
  have n: "td_name (viewCartTool d) = ''view_cart''" for d
    by (simp add: viewCartTool_def)
  have d: "distinct (map fst ?tools)"
    by simp
  note reg = registerTool_replaces_and_keeps_names_unique
    [of ?tools "viewCartTool ''second''" "[]" "''view_cart''"]
  from reg have "map_of (registerTool ?tools (viewCartTool ''second''))
      = (map_of ?tools)(td_name (viewCartTool ''second'') \<mapsto> viewCartTool ''second'')"
    by (rule conjunct1)
  then have a: "map_of (registerTool ?tools (viewCartTool ''second'')) ''view_cart''
      = Some (viewCartTool ''second'')"
    by (simp add: n)
  from reg have "map fst (registerTool ?tools (viewCartTool ''second'')) =
       (if td_name (viewCartTool ''second'') \<in> set (map fst ?tools) then map fst ?tools
        else map fst ?tools @ [td_name (viewCartTool ''second'')])"
    by (rule conjunct2 [THEN conjunct1])
  then have b: "map fst (registerTool ?tools (viewCartTool ''second'')) = [''view_cart'']"
    by (simp add: n)
  from reg have "distinct (map fst ?tools) \<longrightarrow>
      distinct (map fst (registerTool ?tools (viewCartTool ''second'')))"
    by (rule conjunct2 [THEN conjunct2, THEN conjunct1])
  with d have c: "distinct (map fst (registerTool ?tools (viewCartTool ''second'')))"
    by (rule rev_mp)
  from a b c show ?thesis by (intro conjI)
qed



text \<open>
  C10. On a session without a cart, \<open>addToCart\<close> stores a cart bound to the restaurant
  id of the call before it looks anything up: the cart is there after the call, and after
  a failing call it is the empty cart with that restaurant id. On a session with a cart,
  no call changes the cart's restaurant id, whatever restaurant id the call names; a call
  that names an existing restaurant and item succeeds and appends that item to the same
  cart. The carts of other sessions are untouched.
\<close>

theorem addToCart_binds_cart_once:
  "(carts s sid = None \<longrightarrow>
      (\<exists>c'. carts (fst (addToCart s sid rid iid q cz)) sid = Some c' \<and> c_restaurantId c' = rid)
      \<and> (\<forall>e. snd (addToCart s sid rid iid q cz) = Inl e \<longrightarrow>
            carts (fst (addToCart s sid rid iid q cz)) sid
              = Some \<lparr>c_restaurantId = rid, c_items = [], c_total = 0\<rparr>))
   \<and> (\<forall>c. carts s sid = Some c \<longrightarrow>
        (\<exists>c'. carts (fst (addToCart s sid rid iid q cz)) sid = Some c'
            \<and> c_restaurantId c' = c_restaurantId c)
        \<and> (\<forall>m it. getProperty getMenus rid = Own m \<and> findItem (m_categories m) iid = Some it
              \<longrightarrow> (\<exists>reply. snd (addToCart s sid rid iid q cz) = Inr reply
                     \<and> c_restaurantId (ar_cart reply) = c_restaurantId c
                     \<and> c_items (ar_cart reply) = c_items c @
                          [\<lparr>ci_itemId = iid, ci_name = mi_name it, ci_price = mi_price it,
                            ci_quantity = q, ci_customizations = cz,
                            ci_subtotal = mi_price it * q\<rparr>])))
   \<and> (\<forall>sid'. sid' \<noteq> sid \<longrightarrow> carts (fst (addToCart s sid rid iid q cz)) sid' = carts s sid')"
proof (intro conjI allI impI)
  assume none: "carts s sid = None"
  with addToCart_binding [of s sid rid iid q cz]
  show "\<exists>c'. carts (fst (addToCart s sid rid iid q cz)) sid = Some c' \<and> c_restaurantId c' = rid"
    by simp
  fix e assume "snd (addToCart s sid rid iid q cz) = Inl e"
  from addToCart_fail [OF this] none
  show "carts (fst (addToCart s sid rid iid q cz)) sid
              = Some \<lparr>c_restaurantId = rid, c_items = [], c_total = 0\<rparr>"
    by (simp add: ensureCart_carts emptyCartFor_def)
next
  fix c assume some: "carts s sid = Some c"
  with addToCart_binding [of s sid rid iid q cz]
  show "\<exists>c'. carts (fst (addToCart s sid rid iid q cz)) sid = Some c'
            \<and> c_restaurantId c' = c_restaurantId c"
    by simp
  fix m it assume "getProperty getMenus rid = Own m \<and> findItem (m_categories m) iid = Some it"
  then have found: "getProperty getMenus rid = Own m" "findItem (m_categories m) iid = Some it"
    by simp_all
  from addToCart_reply [OF found, of s sid q cz] some
  show "\<exists>reply. snd (addToCart s sid rid iid q cz) = Inr reply
                     \<and> c_restaurantId (ar_cart reply) = c_restaurantId c
                     \<and> c_items (ar_cart reply) = c_items c @
                          [\<lparr>ci_itemId = iid, ci_name = mi_name it, ci_price = mi_price it,
                            ci_quantity = q, ci_customizations = cz,
                            ci_subtotal = mi_price it * q\<rparr>]"
    by (auto simp: prevItems_def newLine_def)
next
  fix sid' assume "sid' \<noteq> sid"
  then show "carts (fst (addToCart s sid rid iid q cz)) sid' = carts s sid'"
    by (rule addToCart_other_sessions)
qed

theorem addToCart_binds_cart_once_witness:
  "snd (addToCart newService ''s1'' ''rest_999'' ''item_001'' 1 None) = Inl RestaurantNotFound
   \<and> carts (fst (addToCart newService ''s1'' ''rest_999'' ''item_001'' 1 None)) ''s1''
       = Some \<lparr>c_restaurantId = ''rest_999'', c_items = [], c_total = 0\<rparr>
   \<and> (\<exists>reply. snd (addToCart oneLineCart ''s1'' ''rest_002'' ''item_101'' 1 None) = Inr reply
         \<and> c_restaurantId (ar_cart reply) = ''rest_001''
         \<and> map ci_itemId (c_items (ar_cart reply)) = [''item_001'', ''item_101''])"
proof -
  let ?c = "\<lparr>c_restaurantId = ''rest_001'',
             c_items = [\<lparr>ci_itemId = ''item_001'', ci_name = ''Sev Usal'', ci_price = 80,
                         ci_quantity = 2, ci_customizations = None, ci_subtotal = 160\<rparr>],
             c_total = 160\<rparr>"
  let ?m = "the (map_of getMenus ''rest_002'')"
  let ?it = "\<lparr>mi_id = ''item_101'', mi_name = ''Butter Chicken'',
             mi_description = ''Creamy tomato-based chicken curry'',
             mi_price = 280, mi_veg = False\<rparr>"
  have none: "carts newService ''s1'' = None"
    by (simp add: newService_def)
  have bad: "snd (addToCart newService ''s1'' ''rest_999'' ''item_001'' 1 None)
      = Inl RestaurantNotFound"
    by code_simp
  have some: "carts oneLineCart ''s1'' = Some ?c"
    by code_simp
  have found: "getProperty getMenus ''rest_002'' = Own ?m \<and>
      findItem (m_categories ?m) ''item_101'' = Some ?it"
    by (simp add: getProperty_def getMenus_def)
  note bind = addToCart_binds_cart_once
  from bind [of newService "''s1''" "''rest_999''" "''item_001''" 1 None] none bad
  have a: "carts (fst (addToCart newService ''s1'' ''rest_999'' ''item_001'' 1 None)) ''s1''
       = Some \<lparr>c_restaurantId = ''rest_999'', c_items = [], c_total = 0\<rparr>"
    by blast
  from bind [of oneLineCart "''s1''" "''rest_002''" "''item_101''" 1 None]
  have "\<forall>c. carts oneLineCart ''s1'' = Some c \<longrightarrow>
        (\<exists>c'. carts (fst (addToCart oneLineCart ''s1'' ''rest_002'' ''item_101'' 1 None)) ''s1''
               = Some c' \<and> c_restaurantId c' = c_restaurantId c)
        \<and> (\<forall>m it. getProperty getMenus ''rest_002'' = Own m
                 \<and> findItem (m_categories m) ''item_101'' = Some it
              \<longrightarrow> (\<exists>reply. snd (addToCart oneLineCart ''s1'' ''rest_002'' ''item_101'' 1 None)
                        = Inr reply
                     \<and> c_restaurantId (ar_cart reply) = c_restaurantId c
                     \<and> c_items (ar_cart reply) = c_items c @
                          [\<lparr>ci_itemId = ''item_101'', ci_name = mi_name it,
                            ci_price = mi_price it, ci_quantity = 1, ci_customizations = None,
                            ci_subtotal = mi_price it * 1\<rparr>]))"
    by blast
  from this [rule_format, OF some, THEN conjunct2, rule_format, OF found]
  obtain reply where
    r: "snd (addToCart oneLineCart ''s1'' ''rest_002'' ''item_101'' 1 None) = Inr reply" and
    b: "c_restaurantId (ar_cart reply) = c_restaurantId ?c" and
    i: "c_items (ar_cart reply) = c_items ?c @
          [\<lparr>ci_itemId = ''item_101'', ci_name = mi_name ?it,
            ci_price = mi_price ?it, ci_quantity = 1, ci_customizations = None,
            ci_subtotal = mi_price ?it * 1\<rparr>]"
    by blast
  from b i have "c_restaurantId (ar_cart reply) = ''rest_001''"
    "map ci_itemId (c_items (ar_cart reply)) = [''item_001'', ''item_101'']"
    by simp_all
  with r bad a show ?thesis by auto
qed

end
